theory Spec2Isabelle
  imports Complex_Main
begin

section \<open>Data model of \<open>ichnaea.api.locate.provider\<close>\<close>

text \<open>
  Exceptions of the source as values. \<open>ValueError\<close> is the one exception
  \<open>should_locate\<close> catches and the one Python's \<open>max\<close> raises on an empty
  sequence; \<open>OtherError\<close> stands for any exception that is not a
  \<open>ValueError\<close> (it is never caught by the code modelled here).
\<close>

datatype error = ValueError | OtherError

text \<open>
  The values a fallback map can hold (the scalars of a decoded request), with
  the truth value Python's \<open>bool()\<close> gives each of them.
\<close>

datatype pyval = PyNone | PyBool bool | PyInt int | PyStr string

fun py_bool :: "pyval \<Rightarrow> bool" where
  "py_bool PyNone = False"
| "py_bool (PyBool b) = b"
| "py_bool (PyInt i) = (i \<noteq> 0)"
| "py_bool (PyStr s) = (s \<noteq> [])"

text \<open>
  \<open>Network = namedtuple('Network', ['key', 'lat', 'lon', 'range'])\<close>; the range
  is nullable. Numbers are modelled as reals (the rounding of Python floats is
  not modelled; every operation used on them below is a comparison, apart from
  the scaling by 1000).
\<close>

record Network =
  key :: string
  lat :: real
  lon :: real
  range :: "real option"

text \<open>
  A dict is an association list read by \<open>map_of\<close> (\<open>dict.get\<close>); it is falsy
  exactly when it is empty. The attribute \<open>query.fallbacks\<close> is a property of
  the Query class: reading it either raises or yields \<open>None\<close> or a dict.
\<close>

type_synonym fallbacks_map = "(string \<times> pyval) list"

record Query =
  fallbacks :: "error + fallbacks_map option"

text \<open>The caller identity \<open>api_key\<close>, with its \<open>name\<close> and its \<open>log\<close> flag.\<close>

record ApiKey =
  name :: string
  log :: bool

text \<open>The class attributes and members of a Provider that the methods read.\<close>

record Provider =
  fallback_field :: "string option"
  log_name :: "string option"
  api_key :: ApiKey

section \<open>Python primitives used by the methods\<close>

text \<open>\<open>dict.get(k, default)\<close>.\<close>

definition dict_get :: "fallbacks_map \<Rightarrow> string \<Rightarrow> pyval \<Rightarrow> pyval" where
  "dict_get d k dflt = (case map_of d k of None \<Rightarrow> dflt | Some v \<Rightarrow> v)"

text \<open>
  \<open>max(seq)\<close> on a list: raises \<open>ValueError\<close> on the empty list, otherwise
  scans from the first element keeping the larger one.
\<close>

fun py_max_list :: "real list \<Rightarrow> error + real" where
  "py_max_list [] = Inl ValueError"
| "py_max_list (x # xs) = Inr (fold max xs x)"

text \<open>
  \<open>max(a, b)\<close> with a possibly-null first argument, under the ordering of
  Python 2, where \<open>None\<close> is smaller than every number.
\<close>

fun py_max2 :: "real option \<Rightarrow> real \<Rightarrow> real" where
  "py_max2 None m = m"
| "py_max2 (Some a) m = max a m"

text \<open>\<open>str.format\<close> of an attribute that may be \<open>None\<close>.\<close>

fun py_str :: "string option \<Rightarrow> string" where
  "py_str None = ''None''"
| "py_str (Some s) = s"

section \<open>\<open>Provider.should_locate\<close>\<close>

text \<open>
  The state threaded through is the list of exceptions handed to
  \<open>raven_client.captureException()\<close>. The \<open>location\<close> argument is part of the
  signature and is not read.
\<close>

definition should_locate ::
  "Provider \<Rightarrow> Query \<Rightarrow> 'loc \<Rightarrow> error list \<Rightarrow> (error + bool) \<times> error list" where
  "should_locate self query location raven =
     (case fallback_field self of
        None \<Rightarrow> (Inr True, raven)
      | Some field \<Rightarrow>
          (case fallbacks query of
             Inl e \<Rightarrow>
               (if e = ValueError then (Inr True, raven @ [e])
                else (Inl e, raven))
           | Inr None \<Rightarrow> (Inr True, raven)
           | Inr (Some fbs) \<Rightarrow>
               (if fbs \<noteq> []
                then (Inr (py_bool (dict_get fbs field (PyBool True))), raven)
                else (Inr True, raven))))"

section \<open>\<open>Provider._estimate_accuracy\<close>\<close>

text \<open>
  \<open>distance\<close> is imported from \<open>ichnaea.geocalc\<close> and is a parameter here; the
  method scales its result by 1000. The conversion \<open>float(accuracy)\<close> of a
  non-null accuracy is the identity on the reals. On the empty list the length
  test fails and \<open>max\<close> raises.
\<close>

definition estimate_accuracy ::
  "(real \<Rightarrow> real \<Rightarrow> real \<Rightarrow> real \<Rightarrow> real) \<Rightarrow> real \<Rightarrow> real \<Rightarrow> Network list \<Rightarrow> real
     \<Rightarrow> error + real" where
  "estimate_accuracy distance lat0 lon0 points minimum =
     (if length points = 1
      then Inr (py_max2 (range (points ! 0)) minimum)
      else (case py_max_list (map (\<lambda>p. distance lat0 lon0 (lat p) (lon p) * 1000) points) of
              Inl e \<Rightarrow> Inl e
            | Inr accuracy \<Rightarrow> Inr (py_max2 (Some accuracy) minimum)))"

section \<open>Telemetry: \<open>log_hit\<close>, \<open>log_success\<close>, \<open>log_failure\<close>\<close>

text \<open>
  Modelled from the spec: \<open>StatsLogger.stat_count\<close> (module
  \<open>ichnaea.api.locate.stats\<close>) is the telemetry sink \<open>count(metric_name)\<close>; the
  state is the sequence of metric names handed to it, oldest first.
\<close>

definition stat_count :: "string \<Rightarrow> string list \<Rightarrow> string list" where
  "stat_count stat stats = stats @ [stat]"

definition log_hit :: "Provider \<Rightarrow> string list \<Rightarrow> string list" where
  "log_hit self stats = stat_count (py_str (log_name self) @ ''_hit'') stats"

definition log_success :: "Provider \<Rightarrow> string list \<Rightarrow> string list" where
  "log_success self stats =
     (if log (api_key self)
      then stat_count (''api_log.'' @ name (api_key self) @ ''.'' @ py_str (log_name self) @ ''_hit'') stats
      else stats)"

definition log_failure :: "Provider \<Rightarrow> string list \<Rightarrow> string list" where
  "log_failure self stats =
     (if log (api_key self)
      then stat_count (''api_log.'' @ name (api_key self) @ ''.'' @ py_str (log_name self) @ ''_miss'') stats
      else stats)"

section \<open>Sample inputs\<close>

text \<open>
  A stand-in for \<open>geocalc.distance\<close> on which the methods are evaluated at
  concrete inputs, and the provider of the repository's tests
  (\<open>log_name = 'test'\<close>, \<open>ApiKey(shortname='test', log=True)\<close>) with
  \<open>fallback_field = 'fallback'\<close>.
\<close>

definition sample_distance :: "real \<Rightarrow> real \<Rightarrow> real \<Rightarrow> real \<Rightarrow> real" where
  "sample_distance lat1 lon1 lat2 lon2 = \<bar>lat1 - lat2\<bar> + \<bar>lon1 - lon2\<bar>"

definition test_provider :: Provider where
  "test_provider =
     \<lparr>fallback_field = Some ''fallback'', log_name = Some ''test'',
      api_key = \<lparr>name = ''test'', log = True\<rparr>\<rparr>"

definition net :: "real \<Rightarrow> real \<Rightarrow> real option \<Rightarrow> Network" where
  "net la lo r = \<lparr>key = ''k'', lat = la, lon = lo, range = r\<rparr>"

section \<open>Auxiliary facts\<close>

lemma fold_max_Max: "fold max xs (x::real) = Max (set (x # xs))"
  using Max.set_eq_fold [of x xs] by simp

lemma py_max_list_nonempty:
  "xs \<noteq> [] \<Longrightarrow> py_max_list xs = Inr (Max (set xs))"
  by (cases xs) (simp_all only: py_max_list.simps fold_max_Max, simp)

lemma estimate_accuracy_multi:
  assumes "2 \<le> length points"
  shows "estimate_accuracy distance lat0 lon0 points minimum =
           Inr (max (Max ((\<lambda>p. distance lat0 lon0 (lat p) (lon p) * 1000) ` set points)) minimum)"
proof -
  from assms have ne: "map (\<lambda>p. distance lat0 lon0 (lat p) (lon p) * 1000) points \<noteq> []"
    by auto
  from assms have "length points \<noteq> 1" by simp
  then show ?thesis
    unfolding estimate_accuracy_def
    by (simp add: py_max_list_nonempty [OF ne])
qed

lemma estimate_accuracy_single:
  "estimate_accuracy distance lat0 lon0 [p] minimum = Inr (py_max2 (range p) minimum)"
  by (simp add: estimate_accuracy_def)

lemma py_max2_ge: "minimum \<le> py_max2 a minimum"
  by (cases a) simp_all

lemma net_simps [simp]:
  "lat (net la lo r) = la" "lon (net la lo r) = lo" "range (net la lo r) = r"
  by (simp_all add: net_def)

section \<open>The accuracy estimator\<close>

text \<open>
  C1. For every sequence of two or more observations, \<open>_estimate_accuracy\<close>
  returns the maximum over the observations of the distance from \<open>(lat, lon)\<close>
  to the observation's position, scaled by 1000 (kilometres to metres), floored
  at \<open>minimum\<close>.
\<close>

theorem estimate_accuracy_max_distance:
  assumes "2 \<le> length points"
  shows "estimate_accuracy distance lat0 lon0 points minimum =
           Inr (max (Max ((\<lambda>p. distance lat0 lon0 (lat p) (lon p) * 1000) ` set points))
                    minimum)"
  using assms by (rule estimate_accuracy_multi)

theorem estimate_accuracy_max_distance_witness:
  "2 \<le> length [net 1 0 None, net 0 3 None, net 2 0 None] \<and>
   estimate_accuracy sample_distance 0 0 [net 1 0 None, net 0 3 None, net 2 0 None] 10
     = Inr 3000"
  using estimate_accuracy_max_distance
    [of "[net 1 0 None, net 0 3 None, net 2 0 None]" sample_distance 0 0 10]
  by (simp add: sample_distance_def)

text \<open>
  C2, as the spec states it, fails: with a single observation of range 5 and a
  minimum of 10 the method returns 10, not the observation's range.
\<close>

theorem estimate_accuracy_single_counterexample:
  "estimate_accuracy sample_distance 0 0 [net 0 0 (Some 5)] 10 = Inr 10 \<and>
   estimate_accuracy sample_distance 0 0 [net 0 0 (Some 5)] 10 \<noteq> Inr 5"
  by (simp add: estimate_accuracy_def)

text \<open>
  C2, amended. For a single observation with a non-null range the method
  returns the larger of that range and \<open>minimum\<close>: the observation's own range
  exactly when \<open>minimum\<close> is not larger than it.
\<close>

theorem estimate_accuracy_single_range:
  assumes "range p = Some r"
  shows "estimate_accuracy distance lat0 lon0 [p] minimum = Inr (max r minimum) \<and>
         (minimum \<le> r \<longrightarrow> estimate_accuracy distance lat0 lon0 [p] minimum = Inr r)"
  using assms by (simp add: estimate_accuracy_single)

theorem estimate_accuracy_single_range_witness:
  "range (net 0 0 (Some 50)) = Some 50 \<and> (10::real) \<le> 50 \<and>
   estimate_accuracy sample_distance 0 0 [net 0 0 (Some 50)] 10 = Inr 50"
  using estimate_accuracy_single_range [of "net 0 0 (Some 50)" 50 sample_distance 0 0 10]
  by simp

text \<open>
  C3. For every non-empty observation sequence the method returns a number (no
  error, no null) that is at least \<open>minimum\<close>; for a single observation with a
  null range it returns \<open>minimum\<close> itself.
\<close>

theorem estimate_accuracy_at_least_minimum:
  assumes "points \<noteq> []"
  shows "(\<exists>a. estimate_accuracy distance lat0 lon0 points minimum = Inr a \<and> minimum \<le> a) \<and>
         (length points = 1 \<and> range (points ! 0) = None
            \<longrightarrow> estimate_accuracy distance lat0 lon0 points minimum = Inr minimum)"
proof
  show "\<exists>a. estimate_accuracy distance lat0 lon0 points minimum = Inr a \<and> minimum \<le> a"
  proof (cases "length points = 1")
    case True
    then obtain q where "points = [q]"
      by (cases points) auto
    then show ?thesis
      by (simp add: estimate_accuracy_single py_max2_ge)
  next
    case False
    moreover from assms have "length points \<noteq> 0"
      by simp
    ultimately have "2 \<le> length points"
      by arith
    then show ?thesis
      by (simp add: estimate_accuracy_multi)
  qed
next
  show "length points = 1 \<and> range (points ! 0) = None
          \<longrightarrow> estimate_accuracy distance lat0 lon0 points minimum = Inr minimum"
    by (simp add: estimate_accuracy_def)
qed

theorem estimate_accuracy_at_least_minimum_witness:
  "[net 4 5 None] \<noteq> [] \<and> length [net 4 5 None] = 1 \<and> range ([net 4 5 None] ! 0) = None \<and>
   estimate_accuracy sample_distance 0 0 [net 4 5 None] 10 = Inr 10 \<and>
   (\<exists>a. estimate_accuracy sample_distance 0 0 [net 4 5 None] 10 = Inr a \<and> 10 \<le> a)"
  using estimate_accuracy_at_least_minimum [of "[net 4 5 None]" sample_distance 0 0 10]
  by simp

text \<open>
  C6, as the spec states it, fails: the method has no error of its own for the
  empty cluster. What is raised on the empty sequence is the built-in
  \<open>ValueError\<close> of \<open>max\<close>, not an exception of any other class, and it is the
  very exception that the policy gate swallows as a malformed fallback value.
\<close>

theorem estimate_accuracy_empty_counterexample:
  "estimate_accuracy sample_distance 0 0 [] 10 = Inl ValueError \<and>
   estimate_accuracy sample_distance 0 0 [] 10 \<noteq> Inl OtherError \<and>
   should_locate test_provider \<lparr>fallbacks = Inl ValueError\<rparr> () [] = (Inr True, [ValueError])"
  by (simp add: estimate_accuracy_def should_locate_def test_provider_def)

text \<open>
  C6, amended. On the empty observation sequence the method fails and returns
  no value: the list \<open>max\<close> is taken of an empty list and raises the built-in
  \<open>ValueError\<close>.
\<close>

theorem estimate_accuracy_empty_fails:
  "estimate_accuracy distance lat0 lon0 [] minimum = Inl ValueError"
  by (simp add: estimate_accuracy_def)

text \<open>
  C7. For a fixed centroid and a cluster of two or more observations, inserting
  one more observation anywhere in the sequence never decreases the returned
  accuracy.
\<close>

theorem estimate_accuracy_mono:
  assumes "2 \<le> length (xs @ ys)"
  shows "\<exists>a b. estimate_accuracy distance lat0 lon0 (xs @ ys) minimum = Inr a \<and>
               estimate_accuracy distance lat0 lon0 (xs @ p # ys) minimum = Inr b \<and>
               a \<le> b"
proof -
  let ?f = "\<lambda>q. distance lat0 lon0 (lat q) (lon q) * 1000"
  from assms have len: "2 \<le> length (xs @ p # ys)"
    by simp
  from assms have ne: "set (xs @ ys) \<noteq> {}"
    by auto
  have "?f ` set (xs @ ys) \<subseteq> ?f ` set (xs @ p # ys)"
    by auto
  then have "Max (?f ` set (xs @ ys)) \<le> Max (?f ` set (xs @ p # ys))"
    using ne by (intro Max_mono) auto
  then have "max (Max (?f ` set (xs @ ys))) minimum
               \<le> max (Max (?f ` set (xs @ p # ys))) minimum"
    by (rule max.mono) simp
  then show ?thesis
    by (simp only: estimate_accuracy_multi [OF assms] estimate_accuracy_multi [OF len]) simp
qed

theorem estimate_accuracy_mono_witness:
  "2 \<le> length ([net 1 0 None] @ [net 0 2 None]) \<and>
   estimate_accuracy sample_distance 0 0 ([net 1 0 None] @ [net 0 2 None]) 10 = Inr 2000 \<and>
   estimate_accuracy sample_distance 0 0 ([net 1 0 None] @ net 5 0 None # [net 0 2 None]) 10
     = Inr 5000 \<and>
   (\<exists>a b. estimate_accuracy sample_distance 0 0 ([net 1 0 None] @ [net 0 2 None]) 10 = Inr a \<and>
          estimate_accuracy sample_distance 0 0 ([net 1 0 None] @ net 5 0 None # [net 0 2 None]) 10
            = Inr b \<and> a \<le> b)"
proof -
  have a: "estimate_accuracy sample_distance 0 0 ([net 1 0 None] @ [net 0 2 None]) 10 = Inr 2000"
    by (simp add: estimate_accuracy_def sample_distance_def)
  have b: "estimate_accuracy sample_distance 0 0 ([net 1 0 None] @ net 5 0 None # [net 0 2 None]) 10
             = Inr 5000"
    by (simp add: estimate_accuracy_def sample_distance_def)
  have l: "2 \<le> length ([net 1 0 None] @ [net 0 2 None])"
    by simp
  from estimate_accuracy_mono [OF l, of sample_distance 0 0 10 "net 5 0 None"] a b l
  show ?thesis
    by blast
qed

section \<open>The policy gate\<close>

text \<open>
  C4, as the spec states it, fails: a map that holds the non-boolean value 0 (or
  the empty string, or null) under the configured field makes the gate return
  false, because the value is coerced with \<open>bool()\<close>.
\<close>

theorem should_locate_nonboolean_counterexample:
  "fst (should_locate test_provider \<lparr>fallbacks = Inr (Some [(''fallback'', PyInt 0)])\<rparr> () [])
     = Inr False \<and>
   map_of [(''fallback'', PyInt 0)] ''fallback'' \<noteq> Some (PyBool False)"
  by (simp add: should_locate_def test_provider_def dict_get_def)

text \<open>
  C4, amended. The gate returns false exactly when the field is configured and
  the fallback map holds a falsy value under it (the boolean false, and also
  null, 0 and the empty string). In every other situation in which the read of
  the map does not raise an exception other than \<open>ValueError\<close> (a missing key,
  a truthy non-boolean value, an empty map, no map) it returns true.
\<close>

theorem should_locate_false_iff:
  "(fst (should_locate self query location raven) = Inr False \<longleftrightarrow>
      (\<exists>field fbs v. fallback_field self = Some field \<and> fallbacks query = Inr (Some fbs) \<and>
         map_of fbs field = Some v \<and> \<not> py_bool v)) \<and>
   (\<not> (\<exists>field fbs v. fallback_field self = Some field \<and> fallbacks query = Inr (Some fbs) \<and>
         map_of fbs field = Some v \<and> \<not> py_bool v) \<and>
    (fallback_field self = None \<or> fallbacks query \<noteq> Inl OtherError)
      \<longrightarrow> fst (should_locate self query location raven) = Inr True)"
proof -
  let ?refuses = "\<exists>field fbs v. fallback_field self = Some field \<and>
     fallbacks query = Inr (Some fbs) \<and> map_of fbs field = Some v \<and> \<not> py_bool v"
  have "fst (should_locate self query location raven) = Inr False \<longleftrightarrow> ?refuses"
    unfolding should_locate_def dict_get_def
    by (auto split: option.splits sum.splits)
  moreover have "\<not> ?refuses \<and> (fallback_field self = None \<or> fallbacks query \<noteq> Inl OtherError)
      \<longrightarrow> fst (should_locate self query location raven) = Inr True"
    unfolding should_locate_def dict_get_def
    by (auto split: option.splits sum.splits) (metis error.exhaust)
  ultimately show ?thesis
    by blast
qed

theorem should_locate_false_iff_witness:
  "fst (should_locate test_provider \<lparr>fallbacks = Inr (Some [(''fallback'', PyBool False)])\<rparr> () [])
     = Inr False \<and>
   fst (should_locate test_provider \<lparr>fallbacks = Inr (Some [(''another_fallback'', PyBool False)])\<rparr> () [])
     = Inr True \<and>
   fst (should_locate test_provider \<lparr>fallbacks = Inr (Some [(''fallback'', PyStr ''asdf'')])\<rparr> () [])
     = Inr True \<and>
   fst (should_locate test_provider \<lparr>fallbacks = Inr (Some [])\<rparr> () []) = Inr True"
  using
    should_locate_false_iff
      [of test_provider "\<lparr>fallbacks = Inr (Some [(''fallback'', PyBool False)])\<rparr>" "()" "[]"]
    should_locate_false_iff
      [of test_provider "\<lparr>fallbacks = Inr (Some [(''another_fallback'', PyBool False)])\<rparr>" "()" "[]"]
    should_locate_false_iff
      [of test_provider "\<lparr>fallbacks = Inr (Some [(''fallback'', PyStr ''asdf'')])\<rparr>" "()" "[]"]
    should_locate_false_iff
      [of test_provider "\<lparr>fallbacks = Inr (Some [])\<rparr>" "()" "[]"]
  by (simp add: test_provider_def)

text \<open>
  C5. A provider with no configured \<open>fallback_field\<close> returns true for every
  query and every current-best location, without reading the query and without
  reporting anything.
\<close>

theorem should_locate_no_fallback_field:
  assumes "fallback_field self = None"
  shows "should_locate self query location raven = (Inr True, raven)"
  using assms by (simp add: should_locate_def)

theorem should_locate_no_fallback_field_witness:
  "fallback_field (test_provider\<lparr>fallback_field := None\<rparr>) = None \<and>
   should_locate (test_provider\<lparr>fallback_field := None\<rparr>)
     \<lparr>fallbacks = Inr (Some [(''fallback'', PyBool False)])\<rparr> () [] = (Inr True, [])"
  using should_locate_no_fallback_field
    [of "test_provider\<lparr>fallback_field := None\<rparr>"
        "\<lparr>fallbacks = Inr (Some [(''fallback'', PyBool False)])\<rparr>" "()" "[]"]
  by simp

text \<open>
  C8, as the spec states it, fails: only \<open>ValueError\<close> is caught. When reading
  the fallback map raises any other exception, that exception leaves the gate
  and nothing is reported.
\<close>

theorem should_locate_propagates_counterexample:
  "should_locate test_provider \<lparr>fallbacks = Inl OtherError\<rparr> () [] = (Inl OtherError, [])"
  by (simp add: should_locate_def test_provider_def)

text \<open>
  C8, amended. When reading the query's fallback map raises \<open>ValueError\<close>, the
  gate returns true and the exception is handed to the error reporter (once,
  when the field is configured and the map is therefore read at all). No
  \<open>ValueError\<close> ever leaves the gate: an exception leaves it exactly when the
  field is configured and the read raises an exception other than
  \<open>ValueError\<close>, and that exception is the one that leaves.
\<close>

theorem should_locate_recovers:
  "(fallbacks query = Inl ValueError \<longrightarrow>
      should_locate self query location raven =
        (Inr True, if fallback_field self = None then raven else raven @ [ValueError])) \<and>
   (fst (should_locate self query location raven) = Inl e \<longleftrightarrow>
      fallback_field self \<noteq> None \<and> fallbacks query = Inl e \<and> e \<noteq> ValueError)"
proof
  show "fallbacks query = Inl ValueError \<longrightarrow>
      should_locate self query location raven =
        (Inr True, if fallback_field self = None then raven else raven @ [ValueError])"
    by (simp add: should_locate_def split: option.split)
next
  show "fst (should_locate self query location raven) = Inl e \<longleftrightarrow>
      fallback_field self \<noteq> None \<and> fallbacks query = Inl e \<and> e \<noteq> ValueError"
    unfolding should_locate_def
    by (auto split: option.splits sum.splits)
qed

theorem should_locate_recovers_witness:
  "fallbacks \<lparr>fallbacks = Inl ValueError\<rparr> = Inl ValueError \<and>
   should_locate test_provider \<lparr>fallbacks = Inl ValueError\<rparr> () [] = (Inr True, [ValueError]) \<and>
   fst (should_locate test_provider \<lparr>fallbacks = Inl ValueError\<rparr> () []) \<noteq> Inl ValueError"
  using should_locate_recovers [of "\<lparr>fallbacks = Inl ValueError\<rparr>" test_provider "()" "[]" ValueError]
  by (simp add: test_provider_def)

text \<open>
  C10. The result of the gate (return value and reports) does not depend on the
  current-best location it is given.
\<close>

theorem should_locate_ignores_location:
  "should_locate self query location1 raven = should_locate self query location2 raven"
  by (simp add: should_locate_def)

section \<open>Telemetry\<close>

text \<open>
  C9. \<open>log_hit\<close> hands exactly the one metric \<open>{log_name}_hit\<close> to the sink,
  whatever the caller's logging flag is; \<open>log_success\<close> and \<open>log_failure\<close> hand
  it exactly \<open>api_log.{caller}.{log_name}_hit\<close> and
  \<open>api_log.{caller}.{log_name}_miss\<close> when the caller's flag is set, and nothing
  when it is not.
\<close>

theorem log_counters:
  assumes "log_name self = Some metric" and "name (api_key self) = caller"
  shows "log_hit self stats = stats @ [metric @ ''_hit''] \<and>
         log_hit (self\<lparr>api_key := (api_key self)\<lparr>log := flag\<rparr>\<rparr>) stats = stats @ [metric @ ''_hit''] \<and>
         (log (api_key self) \<longrightarrow>
            log_success self stats = stats @ [''api_log.'' @ caller @ ''.'' @ metric @ ''_hit''] \<and>
            log_failure self stats = stats @ [''api_log.'' @ caller @ ''.'' @ metric @ ''_miss'']) \<and>
         (\<not> log (api_key self) \<longrightarrow>
            log_success self stats = stats \<and> log_failure self stats = stats)"
  using assms by (simp add: log_hit_def log_success_def log_failure_def stat_count_def)

theorem log_counters_witness:
  "log_name test_provider = Some ''test'' \<and> name (api_key test_provider) = ''test'' \<and>
   log (api_key test_provider) \<and>
   log_hit test_provider [] = [''test_hit''] \<and>
   log_success test_provider [] = [''api_log.test.test_hit''] \<and>
   log_failure test_provider [] = [''api_log.test.test_miss''] \<and>
   \<not> log (api_key (test_provider\<lparr>api_key := \<lparr>name = ''test'', log = False\<rparr>\<rparr>)) \<and>
   log_hit (test_provider\<lparr>api_key := \<lparr>name = ''test'', log = False\<rparr>\<rparr>) [] = [''test_hit''] \<and>
   log_success (test_provider\<lparr>api_key := \<lparr>name = ''test'', log = False\<rparr>\<rparr>) [] = [] \<and>
   log_failure (test_provider\<lparr>api_key := \<lparr>name = ''test'', log = False\<rparr>\<rparr>) [] = []"
  using log_counters [of test_provider "''test''" "''test''" "[]" True]
    log_counters [of "test_provider\<lparr>api_key := \<lparr>name = ''test'', log = False\<rparr>\<rparr>"
                     "''test''" "''test''" "[]" False]
  by (simp add: test_provider_def)

end
